theory Spec2Isabelle
  imports Main
begin

section \<open>JavaScript values\<close>

text \<open>
  JSON values as the body parser and \<open>res.json\<close> see them.  A JavaScript value that may be
  \<open>undefined\<close> is a \<open>json option\<close> with \<open>None\<close> for \<open>undefined\<close>.  Numbers are kept as
  integers: the handlers only ever test them for truthiness.
\<close>

datatype json =
    JNull
  | JBool bool
  | JNum int
  | JStr string
  | JArr "json list"
  | JObj "(string \<times> json) list"

type_synonym doc = "(string \<times> json) list"

datatype exn = Error string | TypeError string | SyntaxError string

text \<open>\<open>!!v\<close> for a value that may be undefined.\<close>

fun truthy :: "json option \<Rightarrow> bool" where
  "truthy None = False"
| "truthy (Some JNull) = False"
| "truthy (Some (JBool b)) = b"
| "truthy (Some (JNum n)) = (n \<noteq> 0)"
| "truthy (Some (JStr s)) = (s \<noteq> [])"
| "truthy (Some (JArr xs)) = True"
| "truthy (Some (JObj fs)) = True"

text \<open>\<open>!!s\<close> for a string that may be undefined (a cookie, a header, an environment variable).\<close>

fun truthy_str :: "string option \<Rightarrow> bool" where
  "truthy_str None = False"
| "truthy_str (Some s) = (s \<noteq> [])"

text \<open>\<open>a || b\<close> on optional strings and on optional JSON values.\<close>

definition or_str :: "string option \<Rightarrow> string option \<Rightarrow> string option" where
  "or_str a b = (if truthy_str a then a else b)"

definition or_json :: "json option \<Rightarrow> json option \<Rightarrow> json option" where
  "or_json a b = (if truthy a then a else b)"

text \<open>
  An object literal \<open>{k1: v1, ...}\<close> as \<open>res.json\<close> serialises it: a key whose value is
  \<open>undefined\<close> is left out.
\<close>

fun defined_fields :: "(string \<times> json option) list \<Rightarrow> doc" where
  "defined_fields [] = []"
| "defined_fields ((k, None) # r) = defined_fields r"
| "defined_fields ((k, Some v) # r) = (k, v) # defined_fields r"

definition obj :: "(string \<times> json option) list \<Rightarrow> json" where
  "obj fs = JObj (defined_fields fs)"

text \<open>\<open>s.split(c)\<close> for a one-character separator: empty pieces are kept.\<close>

fun split_on :: "char \<Rightarrow> string \<Rightarrow> string list" where
  "split_on c [] = [[]]"
| "split_on c (x # xs) =
     (if x = c then [] # split_on c xs
      else (case split_on c xs of
              [] \<Rightarrow> [[x]]
            | w # ws \<Rightarrow> (x # w) # ws))"

text \<open>\<open>xs[i]\<close>: \<open>undefined\<close> out of range.\<close>

definition index :: "'a list \<Rightarrow> nat \<Rightarrow> 'a option" where
  "index xs i = (if i < length xs then Some (xs ! i) else None)"

text \<open>\<open>v.k\<close> on a value that is known not to be null or undefined.\<close>

fun get_prop :: "json \<Rightarrow> string \<Rightarrow> json option" where
  "get_prop (JObj fs) k = map_of fs k"
| "get_prop v k = None"


section \<open>Requests and responses\<close>

text \<open>
  \<open>req.body\<close> is the parsed JSON object, or \<open>None\<close> when the parser left it undefined;
  \<open>req.cookies\<close> and \<open>req.headers\<close> map names to strings (header names in lower case).
\<close>

record request =
  body :: "doc option"
  cookies :: "(string \<times> string) list"
  headers :: "(string \<times> string) list"

record cookie_opts =
  httpOnly :: "bool option"
  secure :: "bool option"
  sameSite :: "string option"
  maxAge :: "nat option"

datatype cookie_op =
    SetCookie string "json option" cookie_opts
  | ClearCookie string cookie_opts

fun cookie_name :: "cookie_op \<Rightarrow> string" where
  "cookie_name (SetCookie n v opts) = n"
| "cookie_name (ClearCookie n opts) = n"

datatype payload = Json json | Text string

record response =
  status :: nat
  payload :: payload
  set_cookies :: "cookie_op list"

text \<open>\<open>res.status(n).json(j)\<close> on a response with the cookie operations \<open>cs\<close> made so far.\<close>

definition res_json :: "nat \<Rightarrow> cookie_op list \<Rightarrow> json \<Rightarrow> response" where
  "res_json n cs j = \<lparr>status = n, payload = Json j, set_cookies = cs\<rparr>"

definition message :: "string \<Rightarrow> json" where
  "message m = JObj [(''message'', JStr m)]"


section \<open>The server's surroundings\<close>

text \<open>
  What the handlers call and do not define: the hashing and token libraries, the identifier
  generator, the analysis collection, and the faults of the persistence layer.  Each call
  either throws (\<open>Inl\<close>) or returns (\<open>Inr\<close>).
\<close>

datatype db_call = FindOne "json option" | FindById "json option" | Save doc

datatype count_query = CountAll | CountLast24h | CountCancer | CountNeuro

record env =
  db_fault :: "db_call \<Rightarrow> exn option"
  new_ObjectId :: "doc list \<Rightarrow> json"
  bcrypt_hash :: "json option \<Rightarrow> nat \<Rightarrow> exn + string"
  bcrypt_compare :: "json option \<Rightarrow> json option \<Rightarrow> exn + bool"
  jwt_sign :: "json \<Rightarrow> string option \<Rightarrow> string \<Rightarrow> exn + string"
  jwt_verify :: "string \<Rightarrow> string option \<Rightarrow> exn + json"
  countDocuments :: "count_query \<Rightarrow> exn + nat"
  find_sorted :: "exn + json list"

text \<open>
  The module-level constants of \<open>server.js\<close> (lines 40 and 41) and the user collection
  the process talks to.
\<close>

record server =
  JWT_SECRET :: "string option"
  USE_JWT :: bool
  users :: "doc list"

text \<open>
  Process start: \<open>JWT_SECRET = process.env.JWT_SECRET\<close>, \<open>USE_JWT = !!JWT_SECRET\<close>.
\<close>

definition startup :: "(string \<Rightarrow> string option) \<Rightarrow> doc list \<Rightarrow> server" where
  "startup process_env db =
     \<lparr>JWT_SECRET = process_env ''JWT_SECRET'',
      USE_JWT = truthy_str (process_env ''JWT_SECRET''),
      users = db\<rparr>"


section \<open>The user model\<close>

text \<open>
  Modelled from the spec: the file \<open>models/User\<close> that \<open>server.js\<close> requires.  A user is a
  document with the fields \<open>_id\<close>, \<open>fullName\<close>, \<open>doctorId\<close>, \<open>email\<close>,
  \<open>passwordHash\<close>, \<open>hospitalName\<close>, \<open>area\<close> and \<open>profilePicture\<close>; lookups are by exact
  match of the field's value; \<open>save\<close> appends the document to the collection; a
  projection \<open>select("-f")\<close> drops the field \<open>f\<close>.  Every call may throw instead, as
  \<open>db_fault\<close> says.
\<close>

definition User_findOne :: "env \<Rightarrow> doc list \<Rightarrow> json option \<Rightarrow> exn + doc option" where
  "User_findOne env us email =
     (case db_fault env (FindOne email) of
        Some err \<Rightarrow> Inl err
      | None \<Rightarrow> Inr (find (\<lambda>u. map_of u ''email'' = email) us))"

definition User_findById :: "env \<Rightarrow> doc list \<Rightarrow> json option \<Rightarrow> exn + doc option" where
  "User_findById env us uid =
     (case db_fault env (FindById uid) of
        Some err \<Rightarrow> Inl err
      | None \<Rightarrow> Inr (find (\<lambda>u. map_of u ''_id'' = uid) us))"

definition new_User :: "env \<Rightarrow> doc list \<Rightarrow> (string \<times> json option) list \<Rightarrow> doc" where
  "new_User env us given = (''_id'', new_ObjectId env us) # defined_fields given"

definition User_save :: "env \<Rightarrow> doc list \<Rightarrow> doc \<Rightarrow> exn + doc list" where
  "User_save env us u =
     (case db_fault env (Save u) of
        Some err \<Rightarrow> Inl err
      | None \<Rightarrow> Inr (us @ [u]))"

definition select_minus :: "string \<Rightarrow> doc \<Rightarrow> doc" where
  "select_minus f u = filter (\<lambda>kv. fst kv \<noteq> f) u"


section \<open>Session issuance\<close>

text \<open>The two cookie option objects of lines 71 to 76 and of line 79.\<close>

definition token_cookie_opts :: cookie_opts where
  "token_cookie_opts =
     \<lparr>httpOnly = Some True, secure = Some True, sameSite = Some ''none'',
      maxAge = Some (7 * 24 * 60 * 60 * 1000)\<rparr>"

definition email_cookie_opts :: cookie_opts where
  "email_cookie_opts =
     \<lparr>httpOnly = Some False, secure = None, sameSite = Some ''lax'', maxAge = None\<rparr>"

definition user_summary :: "doc \<Rightarrow> json" where
  "user_summary u =
     obj [(''user'',
           Some (obj [(''id'', map_of u ''_id''),
                      (''email'', map_of u ''email''),
                      (''fullName'', map_of u ''fullName'')]))]"

text \<open>
  The \<open>if (USE_JWT) ... else ...\<close> block that ends both Register (lines 69 to 81) and
  Login (lines 98 to 110): it is the same text in both handlers.
\<close>

definition issue_session :: "env \<Rightarrow> server \<Rightarrow> doc \<Rightarrow> exn + response" where
  "issue_session env s u =
     (if USE_JWT s then
        (case jwt_sign env (obj [(''id'', map_of u ''_id''), (''email'', map_of u ''email'')])
                (JWT_SECRET s) ''7d'' of
           Inl err \<Rightarrow> Inl err
         | Inr token \<Rightarrow>
             Inr (res_json 200 [SetCookie ''token'' (Some (JStr token)) token_cookie_opts]
                    (user_summary u)))
      else
        Inr (res_json 200 [SetCookie ''user_email'' (map_of u ''email'') email_cookie_opts]
               (user_summary u)))"


section \<open>The endpoints\<close>

text \<open>
  A handler's \<open>try\<close> block either throws or reaches a response; it may have changed the
  collection before it throws.  \<open>try_catch\<close> is the \<open>catch (err) { ... }\<close> that follows.
\<close>

type_synonym outcome = "(exn + response) \<times> server"

definition try_catch :: "outcome \<Rightarrow> (exn \<Rightarrow> response) \<Rightarrow> outcome" where
  "try_catch r h = (case fst r of Inl err \<Rightarrow> (Inr (h err), snd r) | Inr v \<Rightarrow> r)"

definition destructure_undefined :: exn where
  "destructure_undefined = TypeError ''Cannot destructure property of req.body as it is undefined''"

text \<open>POST /api/auth/register, lines 56 to 86.\<close>

definition register_body :: "env \<Rightarrow> server \<Rightarrow> request \<Rightarrow> outcome" where
  "register_body env s req =
     (case body req of
        None \<Rightarrow> (Inl destructure_undefined, s)
      | Some b \<Rightarrow>
          (let fullName = map_of b ''fullName'';
               doctorId = map_of b ''doctorId'';
               email = map_of b ''email'';
               password = map_of b ''password'';
               hospitalName = map_of b ''hospitalName'';
               area = map_of b ''area''
           in if \<not> truthy email \<or> \<not> truthy password then
                (Inr (res_json 400 [] (message ''Email and password are required'')), s)
              else
                (case User_findOne env (users s) email of
                   Inl err \<Rightarrow> (Inl err, s)
                 | Inr existing \<Rightarrow>
                     if existing \<noteq> None then
                       (Inr (res_json 409 [] (message ''User already exists'')), s)
                     else
                       (case bcrypt_hash env password 10 of
                          Inl err \<Rightarrow> (Inl err, s)
                        | Inr hashed \<Rightarrow>
                            (let u = new_User env (users s)
                                       [(''fullName'', fullName),
                                        (''doctorId'', doctorId),
                                        (''email'', email),
                                        (''passwordHash'', Some (JStr hashed)),
                                        (''hospitalName'', hospitalName),
                                        (''area'', area)]
                             in case User_save env (users s) u of
                                  Inl err \<Rightarrow> (Inl err, s)
                                | Inr us' \<Rightarrow>
                                    (issue_session env s u, s\<lparr>users := us'\<rparr>))))))"

definition api_register :: "env \<Rightarrow> server \<Rightarrow> request \<Rightarrow> outcome" where
  "api_register env s req =
     try_catch (register_body env s req) (\<lambda>err. res_json 500 [] (message ''Server error''))"

text \<open>POST /api/auth/login, lines 89 to 115.\<close>

definition login_body :: "env \<Rightarrow> server \<Rightarrow> request \<Rightarrow> outcome" where
  "login_body env s req =
     (case body req of
        None \<Rightarrow> (Inl destructure_undefined, s)
      | Some b \<Rightarrow>
          (let email = map_of b ''email'';
               password = map_of b ''password''
           in case User_findOne env (users s) email of
                Inl err \<Rightarrow> (Inl err, s)
              | Inr None \<Rightarrow> (Inr (res_json 401 [] (message ''Invalid credentials'')), s)
              | Inr (Some u) \<Rightarrow>
                  (case bcrypt_compare env password (map_of u ''passwordHash'') of
                     Inl err \<Rightarrow> (Inl err, s)
                   | Inr isMatch \<Rightarrow>
                       if \<not> isMatch then
                         (Inr (res_json 401 [] (message ''Invalid credentials'')), s)
                       else (issue_session env s u, s))))"

definition api_login :: "env \<Rightarrow> server \<Rightarrow> request \<Rightarrow> outcome" where
  "api_login env s req =
     try_catch (login_body env s req) (\<lambda>err. res_json 500 [] (message ''Server error''))"

text \<open>
  Lines 120 to 130 of GET /api/auth/me and lines 157 to 167 of GET /api/profile are the
  same text: the session is read as the mode says and the user is looked up.  The result
  is a thrown error, an early \<open>return res.status(401)...\<close> (\<open>Inr (Inl r)\<close>), or the value of
  the variable \<open>user\<close> (\<open>Inr (Inr u)\<close>, with \<open>None\<close> for \<open>null\<close>).
\<close>

definition bearer :: "request \<Rightarrow> string option" where
  "bearer req =
     (case map_of (headers req) ''authorization'' of
        None \<Rightarrow> None
      | Some a \<Rightarrow> index (split_on CHR '' '' a) 1)"

definition not_authenticated :: response where
  "not_authenticated = res_json 401 [] (message ''Not authenticated'')"

definition resolve_identity ::
  "env \<Rightarrow> server \<Rightarrow> request \<Rightarrow> exn + (response + doc option)" where
  "resolve_identity env s req =
     (if USE_JWT s then
        (let token = or_str (map_of (cookies req) ''token'') (bearer req)
         in case token of
              None \<Rightarrow> Inr (Inl not_authenticated)
            | Some t \<Rightarrow>
                if t = [] then Inr (Inl not_authenticated)
                else
                  (case jwt_verify env t (JWT_SECRET s) of
                     Inl err \<Rightarrow> Inl err
                   | Inr decoded \<Rightarrow>
                       (case User_findById env (users s) (get_prop decoded ''id'') of
                          Inl err \<Rightarrow> Inl err
                        | Inr u \<Rightarrow> Inr (Inr (map_option (select_minus ''passwordHash'') u)))))
      else
        (let email = or_str (map_of (cookies req) ''user_email'')
                            (map_of (headers req) ''x-user-email'')
         in case email of
              None \<Rightarrow> Inr (Inl not_authenticated)
            | Some e \<Rightarrow>
                if e = [] then Inr (Inl not_authenticated)
                else
                  (case User_findOne env (users s) (Some (JStr e)) of
                     Inl err \<Rightarrow> Inl err
                   | Inr u \<Rightarrow> Inr (Inr (map_option (select_minus ''passwordHash'') u)))))"

definition user_not_found :: response where
  "user_not_found = res_json 404 [] (message ''User not found'')"

text \<open>GET /api/auth/me, lines 118 to 138.\<close>

definition me_body :: "env \<Rightarrow> server \<Rightarrow> request \<Rightarrow> outcome" where
  "me_body env s req =
     (case resolve_identity env s req of
        Inl err \<Rightarrow> (Inl err, s)
      | Inr (Inl early) \<Rightarrow> (Inr early, s)
      | Inr (Inr None) \<Rightarrow> (Inr user_not_found, s)
      | Inr (Inr (Some u)) \<Rightarrow> (Inr (res_json 200 [] (obj [(''user'', Some (JObj u))])), s))"

definition api_me :: "env \<Rightarrow> server \<Rightarrow> request \<Rightarrow> outcome" where
  "api_me env s req =
     try_catch (me_body env s req)
       (\<lambda>err. res_json 401 [] (message ''Invalid or expired token''))"

text \<open>POST /api/auth/logout, lines 141 to 150.\<close>

definition logout_body :: "env \<Rightarrow> server \<Rightarrow> request \<Rightarrow> outcome" where
  "logout_body env s req =
     (Inr (res_json 200
             [ClearCookie ''token''
                \<lparr>httpOnly = None, secure = Some True, sameSite = Some ''none'', maxAge = None\<rparr>,
              ClearCookie ''user_email''
                \<lparr>httpOnly = None, secure = None, sameSite = None, maxAge = None\<rparr>]
             (JObj [(''ok'', JBool True)])), s)"

definition api_logout :: "env \<Rightarrow> server \<Rightarrow> request \<Rightarrow> outcome" where
  "api_logout env s req =
     try_catch (logout_body env s req)
       (\<lambda>err. res_json 500 [] (JObj [(''error'', JStr ''Logout failed'')]))"

text \<open>GET /api/profile, lines 155 to 183.\<close>

definition or_empty :: "json option \<Rightarrow> json option" where
  "or_empty v = or_json v (Some (JStr []))"

definition profile_body :: "env \<Rightarrow> server \<Rightarrow> request \<Rightarrow> outcome" where
  "profile_body env s req =
     (case resolve_identity env s req of
        Inl err \<Rightarrow> (Inl err, s)
      | Inr (Inl early) \<Rightarrow> (Inr early, s)
      | Inr (Inr None) \<Rightarrow> (Inr user_not_found, s)
      | Inr (Inr (Some u)) \<Rightarrow>
          (Inr (res_json 200 []
                  (obj [(''full_name'', or_empty (map_of u ''fullName'')),
                        (''doctor_id'', or_empty (map_of u ''doctorId'')),
                        (''email'', or_empty (map_of u ''email'')),
                        (''hospital_name'', or_empty (map_of u ''hospitalName'')),
                        (''area'', or_empty (map_of u ''area'')),
                        (''profile_picture'', or_empty (map_of u ''profilePicture''))])), s))"

definition api_profile :: "env \<Rightarrow> server \<Rightarrow> request \<Rightarrow> outcome" where
  "api_profile env s req =
     try_catch (profile_body env s req)
       (\<lambda>err. res_json 500 [] (JObj [(''error'', JStr ''Failed to fetch profile'')]))"

text \<open>GET /api/analysis/category-counts, lines 188 to 205.\<close>

definition category_counts_body :: "env \<Rightarrow> server \<Rightarrow> request \<Rightarrow> outcome" where
  "category_counts_body env s req =
     (case countDocuments env CountAll of
        Inl err \<Rightarrow> (Inl err, s)
      | Inr totalCount \<Rightarrow>
     (case countDocuments env CountLast24h of
        Inl err \<Rightarrow> (Inl err, s)
      | Inr todayCount \<Rightarrow>
     (case countDocuments env CountCancer of
        Inl err \<Rightarrow> (Inl err, s)
      | Inr cancerCount \<Rightarrow>
     (case countDocuments env CountNeuro of
        Inl err \<Rightarrow> (Inl err, s)
      | Inr neuroCount \<Rightarrow>
          (Inr (res_json 200 []
                  (JObj [(''todayCount'', JNum (int todayCount)),
                         (''totalCount'', JNum (int totalCount)),
                         (''cancerCount'', JNum (int cancerCount)),
                         (''neuroCount'', JNum (int neuroCount))])), s)))))"

definition api_category_counts :: "env \<Rightarrow> server \<Rightarrow> request \<Rightarrow> outcome" where
  "api_category_counts env s req =
     try_catch (category_counts_body env s req)
       (\<lambda>err. res_json 500 [] (message ''Server error''))"

text \<open>GET /api/analysis/history, lines 207 to 215.\<close>

definition history_body :: "env \<Rightarrow> server \<Rightarrow> request \<Rightarrow> outcome" where
  "history_body env s req =
     (case find_sorted env of
        Inl err \<Rightarrow> (Inl err, s)
      | Inr analyses \<Rightarrow> (Inr (res_json 200 [] (JArr analyses)), s))"

definition api_history :: "env \<Rightarrow> server \<Rightarrow> request \<Rightarrow> outcome" where
  "api_history env s req =
     try_catch (history_body env s req) (\<lambda>err. res_json 500 [] (message ''Server error''))"

text \<open>GET /, line 220: no \<open>try\<close>, and nothing in it that throws.\<close>

definition health :: "env \<Rightarrow> server \<Rightarrow> request \<Rightarrow> outcome" where
  "health env s req =
     (Inr \<lparr>status = 200,
           payload = Text ([CHR 0xE2, CHR 0x9C, CHR 0x85] @ '' MedAI backend running successfully''),
           set_cookies = []\<rparr>, s)"

datatype endpoint =
    POST_register
  | POST_login
  | GET_me
  | POST_logout
  | GET_profile
  | GET_category_counts
  | GET_history
  | GET_root

fun handle :: "endpoint \<Rightarrow> env \<Rightarrow> server \<Rightarrow> request \<Rightarrow> outcome" where
  "handle POST_register = api_register"
| "handle POST_login = api_login"
| "handle GET_me = api_me"
| "handle POST_logout = api_logout"
| "handle GET_profile = api_profile"
| "handle GET_category_counts = api_category_counts"
| "handle GET_history = api_history"
| "handle GET_root = health"

text \<open>
  The process serving one request after the other; each request comes with what its
  surroundings did while it was handled.
\<close>

fun serve :: "server \<Rightarrow> (endpoint \<times> env \<times> request) list \<Rightarrow> server" where
  "serve s [] = s"
| "serve s ((ep, env, req) # rest) = serve (snd (handle ep env s req)) rest"


section \<open>The client session store\<close>

text \<open>
  \<open>AuthContext.jsx\<close>.  The provider's state is the three \<open>useState\<close> cells; what the
  operations do besides is kept in three logs: the routes navigated to, the toasts shown
  and the lines written to the console.  An operation is the list of the effects it
  performs, in order, and \<open>run\<close> performs them.
\<close>

record client =
  user :: "json option"
  loading :: bool
  isAuthenticated :: bool
  navigated :: "string list"
  toasts :: "(string \<times> string) list"
  console :: "string list"

datatype action =
    SetUser "json option"
  | SetIsAuthenticated bool
  | SetLoading bool
  | Navigate string
  | Toast string string
  | ConsoleError string

fun perform :: "client \<Rightarrow> action \<Rightarrow> client" where
  "perform c (SetUser u) = c\<lparr>user := u\<rparr>"
| "perform c (SetIsAuthenticated b) = c\<lparr>isAuthenticated := b\<rparr>"
| "perform c (SetLoading b) = c\<lparr>loading := b\<rparr>"
| "perform c (Navigate path) = c\<lparr>navigated := navigated c @ [path]\<rparr>"
| "perform c (Toast title description) = c\<lparr>toasts := toasts c @ [(title, description)]\<rparr>"
| "perform c (ConsoleError line) = c\<lparr>console := console c @ [line]\<rparr>"

definition run :: "client \<Rightarrow> action list \<Rightarrow> client" where
  "run c acts = foldl perform c acts"

text \<open>Lines 16 to 18: \<open>useState(null)\<close>, \<open>useState(true)\<close>, \<open>useState(false)\<close>.\<close>

definition AuthProvider_initial :: client where
  "AuthProvider_initial =
     \<lparr>user = None, loading = True, isAuthenticated = False,
      navigated = [], toasts = [], console = []\<rparr>"

text \<open>
  What \<open>await fetch(...)\<close> gives: the promise rejects (a transport failure), or it resolves
  to a response with a status and a body that \<open>response.json()\<close> parses or fails to parse.
\<close>

record http_response =
  res_status :: nat
  res_body :: "exn + json"

datatype fetched = Rejected exn | Resolved http_response

definition ok :: "http_response \<Rightarrow> bool" where
  "ok r = (200 \<le> res_status r \<and> res_status r \<le> 299)"

text \<open>\<open>data.user\<close>: reading a property of \<open>null\<close> throws, of any other value it does not.\<close>

definition data_user :: "json \<Rightarrow> exn + json option" where
  "data_user d =
     (case d of
        JNull \<Rightarrow> Inl (TypeError ''Cannot read properties of null'')
      | _ \<Rightarrow> Inr (get_prop d ''user''))"

text \<open>The \<open>try\<close> block of \<open>checkAuthStatus\<close>, lines 34 to 53.\<close>

definition checkAuthStatus_try :: "fetched \<Rightarrow> exn + action list" where
  "checkAuthStatus_try f =
     (case f of
        Rejected err \<Rightarrow> Inl err
      | Resolved response \<Rightarrow>
          if ok response then
            (case res_body response of
               Inl err \<Rightarrow> Inl err
             | Inr d \<Rightarrow>
                 (case data_user d of
                    Inl err \<Rightarrow> Inl err
                  | Inr u \<Rightarrow>
                      if truthy u then Inr [SetUser u, SetIsAuthenticated True]
                      else Inr [SetUser None, SetIsAuthenticated False]))
          else if res_status response = 401 \<or> res_status response = 403 then
            Inr [SetUser None, SetIsAuthenticated False]
          else Inr [])"

text \<open>\<open>checkAuthStatus\<close>, lines 32 to 61, with its \<open>catch\<close> and its \<open>finally\<close>.\<close>

definition checkAuthStatus :: "fetched \<Rightarrow> action list" where
  "checkAuthStatus f =
     (case checkAuthStatus_try f of
        Inl err \<Rightarrow> [ConsoleError ''Auth check failed:'', SetUser None, SetIsAuthenticated False]
      | Inr acts \<Rightarrow> acts)
     @ [SetLoading False]"

text \<open>\<open>logout\<close>, lines 145 to 162: the response is never looked at.\<close>

definition logout :: "fetched \<Rightarrow> action list" where
  "logout f =
     (case f of
        Rejected err \<Rightarrow> [ConsoleError ''Logout error:'']
      | Resolved response \<Rightarrow> [])
     @ [SetUser None, SetIsAuthenticated False, Navigate ''/login'',
        Toast ''Logged out'' ''You have been successfully logged out'']"

text \<open>
  The request \<open>checkAuthStatus\<close> sends (lines 34 to 37) when the browser holds the cookies
  \<open>jar\<close> for the server, and what the browser hands back for the server's answer.
\<close>

definition checkAuthStatus_request :: "(string \<times> string) list \<Rightarrow> request" where
  "checkAuthStatus_request jar =
     \<lparr>body = None, cookies = jar, headers = [(''content-type'', ''application/json'')]\<rparr>"

definition delivered :: "response \<Rightarrow> fetched" where
  "delivered res =
     Resolved \<lparr>res_status = status res,
               res_body = (case payload res of
                             Json j \<Rightarrow> Inr j
                           | Text t \<Rightarrow> Inl (SyntaxError ''Unexpected token''))\<rparr>"

text \<open>
  \<open>useAuth\<close>, lines 7 to 13.  \<open>createContext()\<close> has no default, so \<open>useContext\<close> is
  \<open>undefined\<close> (\<open>None\<close>) unless a provider encloses the caller; the nearest enclosing
  provider's value is what it returns otherwise.  The value the \<open>AuthProvider\<close> provides
  (lines 164 to 173) is an object, hence truthy; its function members are left out.
\<close>

record auth_value =
  value_user :: "json option"
  value_loading :: bool
  value_isAuthenticated :: bool
  value_apiBase :: string

definition provided_value :: "string \<Rightarrow> client \<Rightarrow> auth_value" where
  "provided_value apiBase c =
     \<lparr>value_user = user c, value_loading = loading c,
      value_isAuthenticated = isAuthenticated c, value_apiBase = apiBase\<rparr>"

fun useContext :: "auth_value list \<Rightarrow> auth_value option" where
  "useContext [] = None"
| "useContext (v # outer) = Some v"

definition useAuth :: "auth_value list \<Rightarrow> exn + auth_value" where
  "useAuth providers =
     (case useContext providers of
        None \<Rightarrow> Inl (Error ''useAuth must be used within an AuthProvider'')
      | Some context \<Rightarrow> Inr context)"


section \<open>Concrete surroundings\<close>

text \<open>
  A small world to run the handlers in: a hashing library that prefixes the password, a
  token library with one valid token, a collection with one user, and a server process
  started with and without a signing secret.
\<close>

definition toy_hash :: "json option \<Rightarrow> nat \<Rightarrow> exn + string" where
  "toy_hash p rounds =
     (case p of
        Some (JStr pw) \<Rightarrow> Inr (''hash:'' @ pw)
      | _ \<Rightarrow> Inl (Error ''data must be a string''))"

definition toy_compare :: "json option \<Rightarrow> json option \<Rightarrow> exn + bool" where
  "toy_compare p h =
     (case p of
        Some (JStr pw) \<Rightarrow>
          (case h of
             Some (JStr hs) \<Rightarrow> Inr (hs = ''hash:'' @ pw)
           | _ \<Rightarrow> Inl (Error ''data and hash arguments required''))
      | _ \<Rightarrow> Inl (Error ''data and hash arguments required''))"

definition toy_sign :: "json \<Rightarrow> string option \<Rightarrow> string \<Rightarrow> exn + string" where
  "toy_sign claims key expiresIn =
     (case key of
        None \<Rightarrow> Inl (Error ''secretOrPrivateKey must have a value'')
      | Some k \<Rightarrow> Inr ''signed'')"

definition toy_verify :: "string \<Rightarrow> string option \<Rightarrow> exn + json" where
  "toy_verify t key =
     (if t = ''signed'' then Inr (JObj [(''id'', JNum 0), (''email'', JStr ''a@x.com'')])
      else Inl (Error ''jwt malformed''))"

definition sample_env :: env where
  "sample_env =
     \<lparr>db_fault = (\<lambda>c. None),
      new_ObjectId = (\<lambda>us. JNum (int (length us))),
      bcrypt_hash = toy_hash,
      bcrypt_compare = toy_compare,
      jwt_sign = toy_sign,
      jwt_verify = toy_verify,
      countDocuments = (\<lambda>q. Inr 0),
      find_sorted = Inr []\<rparr>"

text \<open>The same surroundings with the database unreachable: every persistence call throws.\<close>

definition db_down :: env where
  "db_down =
     sample_env\<lparr>db_fault := (\<lambda>c. Some (Error ''connection lost'')),
                countDocuments := (\<lambda>q. Inl (Error ''connection lost'')),
                find_sorted := Inl (Error ''connection lost'')\<rparr>"

definition alice :: doc where
  "alice =
     [(''_id'', JNum 0), (''fullName'', JStr ''Alice''), (''email'', JStr ''a@x.com''),
      (''passwordHash'', JStr ''hash:p1'')]"

definition token_server :: server where
  "token_server = startup (\<lambda>k. if k = ''JWT_SECRET'' then Some ''s3cret'' else None) [alice]"

definition cookie_server :: server where
  "cookie_server = startup (\<lambda>k. None) [alice]"

definition get_with_cookie :: "string \<Rightarrow> string \<Rightarrow> request" where
  "get_with_cookie name v = \<lparr>body = None, cookies = [(name, v)], headers = []\<rparr>"

definition post :: "doc \<Rightarrow> request" where
  "post b = \<lparr>body = Some b, cookies = [], headers = []\<rparr>"


text \<open>A client that is signed in, and a response with a status that is neither ok nor 401 or 403.\<close>

definition signed_in :: client where
  "signed_in =
     \<lparr>user = Some (JObj [(''id'', JNum 0), (''email'', JStr ''a@x.com''),
                         (''fullName'', JStr ''Alice'')]),
      loading = True, isAuthenticated = True,
      navigated = [], toasts = [], console = []\<rparr>"

definition server_error_response :: http_response where
  "server_error_response =
     \<lparr>res_status = 500, res_body = Inr (JObj [(''message'', JStr ''Server error'')])\<rparr>"







section \<open>Facts about \<open>try_catch\<close> and the lookups\<close>


lemma try_catch_snd: "snd (try_catch x h) = snd x"
  by (cases x) (auto simp: try_catch_def split: sum.splits)

lemma try_catch_threw: "fst x = Inl err \<Longrightarrow> fst (try_catch x h) = Inr (h err)"
  by (simp add: try_catch_def)

lemma try_catch_returned: "fst x = Inr r \<Longrightarrow> try_catch x h = x"
  by (simp add: try_catch_def)

lemmas world = sample_env_def db_down_def alice_def token_server_def cookie_server_def
  get_with_cookie_def post_def startup_def toy_hash_def toy_compare_def toy_sign_def
  toy_verify_def


lemma findOne_present:
  assumes "db_fault env (FindOne e) = None" and "u \<in> set us" and "map_of u ''email'' = e"
  shows "\<exists>v. User_findOne env us e = Inr (Some v)"
proof -
  have "find (\<lambda>u. map_of u ''email'' = e) us \<noteq> None"
    using assms(2,3) by (auto simp: find_None_iff)
  then show ?thesis using assms(1) by (auto simp: User_findOne_def)
qed


section \<open>Invalid tokens at the identity-gated endpoints\<close>

text \<open>
  In token mode GET /api/auth/me answers a token that does not verify with 401: the
  thrown error reaches the handler's \<open>catch\<close> (lines 134 to 137).
\<close>

lemma me_rejects_bad_token:
  assumes "USE_JWT s" and "map_of (cookies req) ''token'' = Some t" and "t \<noteq> []"
    and "jwt_verify env t (JWT_SECRET s) = Inl err"
  shows "api_me env s req =
           (Inr \<lparr>status = 401,
                 payload = Json (JObj [(''message'', JStr ''Invalid or expired token'')]),
                 set_cookies = []\<rparr>, s)"
  using assms
  by (simp add: api_me_def me_body_def resolve_identity_def try_catch_def or_str_def
      res_json_def message_def)

text \<open>
  C1.  A request to an identity-gated endpoint whose token fails verification is to be
  answered with 401, like a request with no session.  GET /api/profile does not do so:
  the same thrown error reaches its \<open>catch\<close> (lines 179 to 182), which answers 500 with
  an \<open>error\<close> body.  Here the server runs in token mode and the request carries the cookie
  \<open>token=garbage\<close>, which the token library refuses.
\<close>

theorem profile_answers_bad_token_with_500:
  "fst (api_profile sample_env token_server (get_with_cookie ''token'' ''garbage'')) =
     Inr \<lparr>status = 500,
          payload = Json (JObj [(''error'', JStr ''Failed to fetch profile'')]),
          set_cookies = []\<rparr>"
  by (simp add: world api_profile_def profile_body_def resolve_identity_def try_catch_def
      or_str_def bearer_def res_json_def)


section \<open>Login failures\<close>




section \<open>Registration with an email that is taken\<close>

text \<open>
  C3, as amended.  Take a registration request whose email is the email of a stored user.
  Whatever else the request holds, the collection is left as it was, no cookie is set, and
  the status is 400, 409 or 500.  When moreover email and password are both non-empty and
  the lookup does not fail, the response is 409 with the message "User already exists".
\<close>

theorem register_duplicate_email:
  assumes "body req = Some b" and "u \<in> set (users s)"
    and "map_of u ''email'' = map_of b ''email''"
  shows "snd (api_register env s req) = s
       \<and> (\<exists>r. fst (api_register env s req) = Inr r \<and> set_cookies r = []
                \<and> (status r = 400 \<or> status r = 409 \<or> status r = 500))
       \<and> (truthy (map_of b ''email'') \<and> truthy (map_of b ''password'')
            \<and> db_fault env (FindOne (map_of b ''email'')) = None \<longrightarrow>
           fst (api_register env s req) =
             Inr \<lparr>status = 409,
                  payload = Json (JObj [(''message'', JStr ''User already exists'')]),
                  set_cookies = []\<rparr>)"
proof (cases "truthy (map_of b ''email'') \<and> truthy (map_of b ''password'')")
  case False
  then have "register_body env s req =
      (Inr (res_json 400 [] (message ''Email and password are required'')), s)"
    using assms(1) by (auto simp: register_body_def)
  then show ?thesis using False
    by (auto simp: api_register_def try_catch_def res_json_def)
next
  case True
  show ?thesis
  proof (cases "db_fault env (FindOne (map_of b ''email''))")
    case (Some err)
    then have "register_body env s req = (Inl err, s)"
      using assms(1) True by (simp add: register_body_def User_findOne_def)
    then show ?thesis using Some
      by (simp add: api_register_def try_catch_def res_json_def)
  next
    case None
    then obtain v where "User_findOne env (users s) (map_of b ''email'') = Inr (Some v)"
      using findOne_present [OF None assms(2,3)] by blast
    then have "register_body env s req =
        (Inr (res_json 409 [] (message ''User already exists'')), s)"
      using assms(1) True by (simp add: register_body_def)
    then show ?thesis
      by (simp add: api_register_def try_catch_def res_json_def message_def)
  qed
qed

theorem register_duplicate_email_witness:
  "snd (api_register sample_env cookie_server
          (post [(''email'', JStr ''a@x.com''), (''password'', JStr ''p2'')])) = cookie_server
   \<and> fst (api_register sample_env cookie_server
          (post [(''email'', JStr ''a@x.com''), (''password'', JStr ''p2'')])) =
       Inr \<lparr>status = 409,
            payload = Json (JObj [(''message'', JStr ''User already exists'')]),
            set_cookies = []\<rparr>"
proof -
  have b: "body (post [(''email'', JStr ''a@x.com''), (''password'', JStr ''p2'')]) =
      Some [(''email'', JStr ''a@x.com''), (''password'', JStr ''p2'')]"
    by (simp add: post_def)
  have u: "alice \<in> set (users cookie_server)"
    by (simp add: cookie_server_def startup_def)
  have e: "map_of alice ''email'' =
      map_of [(''email'', JStr ''a@x.com''), (''password'', JStr ''p2'')] ''email''"
    by (simp add: alice_def)
  have f: "truthy (map_of [(''email'', JStr ''a@x.com''), (''password'', JStr ''p2'')] ''email'')
      \<and> truthy (map_of [(''email'', JStr ''a@x.com''), (''password'', JStr ''p2'')] ''password'')
      \<and> db_fault sample_env
           (FindOne (map_of [(''email'', JStr ''a@x.com''), (''password'', JStr ''p2'')] ''email''))
          = None"
    by (simp add: sample_env_def)
  note t = register_duplicate_email [OF b u e, of sample_env]
  show ?thesis
    by (intro conjI t [THEN conjunct1] t [THEN conjunct2, THEN conjunct2, THEN mp, OF f])
qed

text \<open>
  The claim as it is written fails where the password is missing: the check of lines 59
  and 60 comes before the lookup, and the request is answered with 400.
\<close>

theorem register_duplicate_email_without_password:
  "alice \<in> set (users cookie_server)
   \<and> map_of alice ''email'' = Some (JStr ''a@x.com'')
   \<and> fst (api_register sample_env cookie_server (post [(''email'', JStr ''a@x.com'')])) =
       Inr \<lparr>status = 400,
            payload = Json (JObj [(''message'', JStr ''Email and password are required'')]),
            set_cookies = []\<rparr>"
  by (simp add: world api_register_def register_body_def try_catch_def res_json_def
      message_def)


section \<open>The password hash never leaves the server\<close>

lemma select_minus_keys: "f \<notin> fst ` set (select_minus f u)"
  by (auto simp: select_minus_def)

lemma resolve_identity_projected:
  assumes "resolve_identity env s req = Inr (Inr (Some u))"
  shows "''passwordHash'' \<notin> fst ` set u"
proof -
  obtain u0 where "u = select_minus ''passwordHash'' u0"
    using assms
    by (auto simp: resolve_identity_def Let_def split: if_splits option.splits sum.splits)
  then show ?thesis by (simp only: select_minus_keys not_False_eq_True)
qed

lemma or_empty_defined: "\<exists>j. or_empty v = Some j"
  by (cases v) (auto simp: or_empty_def or_json_def)

lemma resolve_identity_early:
  assumes "resolve_identity env s req = Inr (Inl r)"
  shows "r = not_authenticated"
  using assms
  by (simp add: resolve_identity_def Let_def split: if_splits option.splits sum.splits)

lemma me_200:
  assumes "fst (api_me env s req) = Inr r" and "status r = 200"
  shows "\<exists>u. resolve_identity env s req = Inr (Inr (Some u))
           \<and> payload r = Json (JObj [(''user'', JObj u)])"
proof (cases "resolve_identity env s req")
  case (Inl err)
  then show ?thesis using assms
    by (auto simp: api_me_def me_body_def try_catch_def res_json_def)
next
  case (Inr v)
  show ?thesis
  proof (cases v)
    case (Inl early)
    then have "early = not_authenticated" using Inr resolve_identity_early by blast
    then show ?thesis using assms Inr Inl
      by (auto simp: api_me_def me_body_def try_catch_def res_json_def not_authenticated_def)
  next
    case found: (Inr w)
    then show ?thesis using assms Inr
      by (cases w)
        (auto simp: api_me_def me_body_def try_catch_def res_json_def user_not_found_def
          obj_def)
  qed
qed

lemma profile_200:
  assumes "fst (api_profile env s req) = Inr r" and "status r = 200"
  shows "\<exists>u. resolve_identity env s req = Inr (Inr (Some u))
           \<and> payload r = Json (obj [(''full_name'', or_empty (map_of u ''fullName'')),
                        (''doctor_id'', or_empty (map_of u ''doctorId'')),
                        (''email'', or_empty (map_of u ''email'')),
                        (''hospital_name'', or_empty (map_of u ''hospitalName'')),
                        (''area'', or_empty (map_of u ''area'')),
                        (''profile_picture'', or_empty (map_of u ''profilePicture''))])"
proof (cases "resolve_identity env s req")
  case (Inl err)
  then show ?thesis using assms
    by (auto simp: api_profile_def profile_body_def try_catch_def res_json_def)
next
  case (Inr v)
  show ?thesis
  proof (cases v)
    case (Inl early)
    then have "early = not_authenticated" using Inr resolve_identity_early by blast
    then show ?thesis using assms Inr Inl
      by (auto simp: api_profile_def profile_body_def try_catch_def res_json_def
          not_authenticated_def)
  next
    case found: (Inr w)
    then show ?thesis using assms Inr
      by (cases w)
        (auto simp: api_profile_def profile_body_def try_catch_def res_json_def
          user_not_found_def)
  qed
qed

lemma profile_keys:
  "\<exists>vs. obj [(''full_name'', or_empty a), (''doctor_id'', or_empty b), (''email'', or_empty c),
             (''hospital_name'', or_empty d), (''area'', or_empty e),
             (''profile_picture'', or_empty f)] = JObj vs
       \<and> map fst vs = [''full_name'', ''doctor_id'', ''email'', ''hospital_name'', ''area'',
                        ''profile_picture'']"
proof -
  obtain a' b' c' d' e' f' where
    "or_empty a = Some a'" "or_empty b = Some b'" "or_empty c = Some c'"
    "or_empty d = Some d'" "or_empty e = Some e'" "or_empty f = Some f'"
    using or_empty_defined by metis
  then show ?thesis by (simp add: obj_def)
qed

text \<open>
  C4.  A successful response of GET /api/auth/me carries the user document without the
  field \<open>passwordHash\<close>, and a successful response of GET /api/profile has exactly the six
  keys of lines 171 to 178, none of which is \<open>passwordHash\<close>.  This holds in both modes:
  nothing is assumed of the server's state.
\<close>

theorem identity_responses_hide_passwordHash:
  "(fst (api_me env s req) = Inr r \<and> status r = 200 \<longrightarrow>
      (\<exists>u. payload r = Json (JObj [(''user'', JObj u)]) \<and> ''passwordHash'' \<notin> fst ` set u))
   \<and> (fst (api_profile env s req) = Inr r \<and> status r = 200 \<longrightarrow>
      (\<exists>vs. payload r = Json (JObj vs)
         \<and> map fst vs = [''full_name'', ''doctor_id'', ''email'', ''hospital_name'', ''area'',
                          ''profile_picture'']
         \<and> ''passwordHash'' \<notin> fst ` set vs))"
proof (intro conjI impI)
  assume "fst (api_me env s req) = Inr r \<and> status r = 200"
  then obtain u where u: "resolve_identity env s req = Inr (Inr (Some u))"
      "payload r = Json (JObj [(''user'', JObj u)])"
    using me_200 by blast
  show "\<exists>u. payload r = Json (JObj [(''user'', JObj u)]) \<and> ''passwordHash'' \<notin> fst ` set u"
    using u resolve_identity_projected by blast
next
  assume "fst (api_profile env s req) = Inr r \<and> status r = 200"
  then obtain u where u: 
      "payload r = Json (obj [(''full_name'', or_empty (map_of u ''fullName'')),
                        (''doctor_id'', or_empty (map_of u ''doctorId'')),
                        (''email'', or_empty (map_of u ''email'')),
                        (''hospital_name'', or_empty (map_of u ''hospitalName'')),
                        (''area'', or_empty (map_of u ''area'')),
                        (''profile_picture'', or_empty (map_of u ''profilePicture''))])"
    using profile_200 by blast
  obtain vs where vs: "payload r = Json (JObj vs)"
    "map fst vs = [''full_name'', ''doctor_id'', ''email'', ''hospital_name'', ''area'',
                        ''profile_picture'']"
    using u profile_keys by metis
  have "fst ` set vs = set (map fst vs)" by simp
  then have "''passwordHash'' \<notin> fst ` set vs" unfolding vs(2) by simp
  then show "\<exists>vs. payload r = Json (JObj vs)
         \<and> map fst vs = [''full_name'', ''doctor_id'', ''email'', ''hospital_name'', ''area'',
                          ''profile_picture'']
         \<and> ''passwordHash'' \<notin> fst ` set vs"
    using vs by (intro exI [of _ vs]) simp
qed


theorem identity_responses_hide_passwordHash_witness:
  "fst (api_me sample_env cookie_server (get_with_cookie ''user_email'' ''a@x.com'')) =
     Inr \<lparr>status = 200,
          payload = Json (JObj [(''user'', JObj [(''_id'', JNum 0), (''fullName'', JStr ''Alice''),
                                                (''email'', JStr ''a@x.com'')])]),
          set_cookies = []\<rparr>
   \<and> (\<exists>u. payload \<lparr>status = 200,
          payload = Json (JObj [(''user'', JObj [(''_id'', JNum 0), (''fullName'', JStr ''Alice''),
                                                (''email'', JStr ''a@x.com'')])]),
          set_cookies = []\<rparr> = Json (JObj [(''user'', JObj u)])
          \<and> ''passwordHash'' \<notin> fst ` set u)
   \<and> fst (api_profile sample_env token_server (get_with_cookie ''token'' ''signed'')) =
     Inr \<lparr>status = 200,
          payload = Json (JObj [(''full_name'', JStr ''Alice''), (''doctor_id'', JStr []),
                                (''email'', JStr ''a@x.com''), (''hospital_name'', JStr []),
                                (''area'', JStr []), (''profile_picture'', JStr [])]),
          set_cookies = []\<rparr>
   \<and> (\<exists>vs. payload \<lparr>status = 200,
          payload = Json (JObj [(''full_name'', JStr ''Alice''), (''doctor_id'', JStr []),
                                (''email'', JStr ''a@x.com''), (''hospital_name'', JStr []),
                                (''area'', JStr []), (''profile_picture'', JStr [])]),
          set_cookies = []\<rparr> = Json (JObj vs)
          \<and> map fst vs = [''full_name'', ''doctor_id'', ''email'', ''hospital_name'', ''area'',
                           ''profile_picture'']
          \<and> ''passwordHash'' \<notin> fst ` set vs)"
proof -
  let ?r1 = "\<lparr>status = 200,
          payload = Json (JObj [(''user'', JObj [(''_id'', JNum 0), (''fullName'', JStr ''Alice''),
                                                (''email'', JStr ''a@x.com'')])]),
          set_cookies = []\<rparr>"
  let ?r2 = "\<lparr>status = 200,
          payload = Json (JObj [(''full_name'', JStr ''Alice''), (''doctor_id'', JStr []),
                                (''email'', JStr ''a@x.com''), (''hospital_name'', JStr []),
                                (''area'', JStr []), (''profile_picture'', JStr [])]),
          set_cookies = []\<rparr>"
  have m: "fst (api_me sample_env cookie_server (get_with_cookie ''user_email'' ''a@x.com'')) =
      Inr ?r1"
    by (simp add: world api_me_def me_body_def resolve_identity_def or_str_def
        User_findOne_def select_minus_def try_catch_def res_json_def obj_def)
  have p: "fst (api_profile sample_env token_server (get_with_cookie ''token'' ''signed'')) =
      Inr ?r2"
    by (simp add: world api_profile_def profile_body_def resolve_identity_def or_str_def
        User_findById_def select_minus_def try_catch_def res_json_def obj_def or_empty_def
        or_json_def)
  have m200: "fst (api_me sample_env cookie_server (get_with_cookie ''user_email'' ''a@x.com''))
      = Inr ?r1 \<and> status ?r1 = 200"
    using m by simp
  have p200: "fst (api_profile sample_env token_server (get_with_cookie ''token'' ''signed''))
      = Inr ?r2 \<and> status ?r2 = 200"
    using p by simp
  show ?thesis
    by (intro conjI m p
        identity_responses_hide_passwordHash [THEN conjunct1, THEN mp, OF m200]
        identity_responses_hide_passwordHash [THEN conjunct2, THEN mp, OF p200])
qed

section \<open>Failures at the endpoint boundary\<close>






















section \<open>The operating mode\<close>

lemma register_body_flag:
  "USE_JWT (snd (register_body env s req)) = USE_JWT s \<and>
   JWT_SECRET (snd (register_body env s req)) = JWT_SECRET s"
  by (simp add: register_body_def Let_def split: option.splits sum.splits)

lemma handle_flag:
  "USE_JWT (snd (handle ep env s req)) = USE_JWT s \<and>
   JWT_SECRET (snd (handle ep env s req)) = JWT_SECRET s"
  by (cases ep)
    (simp_all add: api_register_def api_login_def api_me_def api_logout_def api_profile_def
      api_category_counts_def api_history_def health_def try_catch_snd register_body_flag
      login_body_def me_body_def logout_body_def profile_body_def category_counts_body_def
      history_body_def Let_def split: option.splits sum.splits)

lemma serve_flag:
  "USE_JWT (serve s evs) = USE_JWT s \<and> JWT_SECRET (serve s evs) = JWT_SECRET s"
proof (induction evs arbitrary: s)
  case Nil
  show ?case by simp
next
  case (Cons ev evs)
  obtain ep env req where ev: "ev = (ep, env, req)" by (cases ev) auto
  show ?case using Cons.IH [of "snd (handle ep env s req)"] handle_flag [of ep env s req]
    by (simp add: ev)
qed

lemma startup_flag: "USE_JWT (startup penv db) = (\<exists>k. penv ''JWT_SECRET'' = Some k \<and> k \<noteq> [])"
  by (cases "penv ''JWT_SECRET''") (simp_all add: startup_def)

lemma issue_session_cookie:
  assumes "issue_session env s u = Inr r"
  shows "status r = 200 \<and>
         map cookie_name (set_cookies r) = [if USE_JWT s then ''token'' else ''user_email'']"
  using assms by (auto simp: issue_session_def res_json_def split: if_splits sum.splits)

lemma register_200:
  assumes "fst (api_register env s req) = Inr r" and "status r = 200"
  shows "\<exists>u. issue_session env s u = Inr r"
  using assms
  by (auto simp: api_register_def register_body_def try_catch_def res_json_def Let_def
      split: option.splits sum.splits if_splits)

lemma login_200:
  assumes "fst (api_login env s req) = Inr r" and "status r = 200"
  shows "\<exists>u. issue_session env s u = Inr r"
  using assms
  by (auto simp: api_login_def login_body_def try_catch_def res_json_def Let_def
      split: option.splits sum.splits if_splits)

lemma resolve_identity_token_mode:
  assumes "USE_JWT s"
    and "map_of (cookies req) ''token'' = map_of (cookies req') ''token''"
    and "map_of (headers req) ''authorization'' = map_of (headers req') ''authorization''"
  shows "resolve_identity env s req = resolve_identity env s req'"
  using assms by (simp add: resolve_identity_def bearer_def)

lemma resolve_identity_cookie_mode:
  assumes "\<not> USE_JWT s"
    and "map_of (cookies req) ''user_email'' = map_of (cookies req') ''user_email''"
    and "map_of (headers req) ''x-user-email'' = map_of (headers req') ''x-user-email''"
  shows "resolve_identity env s req = resolve_identity env s req'"
  using assms by (simp add: resolve_identity_def)

lemma gated_by_identity:
  assumes "ep = GET_me \<or> ep = GET_profile"
    and "resolve_identity env s req = resolve_identity env s req'"
  shows "handle ep env s req = handle ep env s req'"
  using assms by (auto simp: api_me_def me_body_def api_profile_def profile_body_def)

text \<open>
  C6.  The mode flag is computed once, when the process starts, from the environment:
  token mode exactly when \<open>JWT_SECRET\<close> is set to a non-empty string.  No request changes
  the flag or the secret, however many requests are served and whatever any of them
  holds.  Register and Login issue the session the flag selects: a successful response
  sets the cookie \<open>token\<close> in token mode and the cookie \<open>user_email\<close> in cookie mode, and
  no other.  GET /api/auth/me and GET /api/profile validate the session the flag selects:
  in token mode their answer depends on the request only through the \<open>token\<close> cookie and
  the \<open>authorization\<close> header, in cookie mode only through the \<open>user_email\<close> cookie and
  the \<open>x-user-email\<close> header, so the mode is never read off the request.
\<close>

theorem mode_is_fixed_at_startup:
  "USE_JWT (startup penv db) = (\<exists>k. penv ''JWT_SECRET'' = Some k \<and> k \<noteq> [])
   \<and> USE_JWT (serve s evs) = USE_JWT s
   \<and> JWT_SECRET (serve s evs) = JWT_SECRET s
   \<and> ((ep = POST_register \<or> ep = POST_login) \<and> fst (handle ep env s req) = Inr r
        \<and> status r = 200 \<longrightarrow>
       map cookie_name (set_cookies r) = [if USE_JWT s then ''token'' else ''user_email''])
   \<and> ((ep = GET_me \<or> ep = GET_profile) \<and> USE_JWT s
        \<and> map_of (cookies req) ''token'' = map_of (cookies req') ''token''
        \<and> map_of (headers req) ''authorization'' = map_of (headers req') ''authorization'' \<longrightarrow>
       handle ep env s req = handle ep env s req')
   \<and> ((ep = GET_me \<or> ep = GET_profile) \<and> \<not> USE_JWT s
        \<and> map_of (cookies req) ''user_email'' = map_of (cookies req') ''user_email''
        \<and> map_of (headers req) ''x-user-email'' = map_of (headers req') ''x-user-email'' \<longrightarrow>
       handle ep env s req = handle ep env s req')"
proof (intro conjI impI)
  show "USE_JWT (startup penv db) = (\<exists>k. penv ''JWT_SECRET'' = Some k \<and> k \<noteq> [])"
    by (rule startup_flag)
  show "USE_JWT (serve s evs) = USE_JWT s" by (simp add: serve_flag)
  show "JWT_SECRET (serve s evs) = JWT_SECRET s" by (simp add: serve_flag)
next
  assume a: "(ep = POST_register \<or> ep = POST_login) \<and> fst (handle ep env s req) = Inr r
        \<and> status r = 200"
  then have "\<exists>u. issue_session env s u = Inr r"
    using register_200 login_200 by auto
  then show "map cookie_name (set_cookies r) = [if USE_JWT s then ''token'' else ''user_email'']"
    using issue_session_cookie by blast
next
  assume "(ep = GET_me \<or> ep = GET_profile) \<and> USE_JWT s
        \<and> map_of (cookies req) ''token'' = map_of (cookies req') ''token''
        \<and> map_of (headers req) ''authorization'' = map_of (headers req') ''authorization''"
  then show "handle ep env s req = handle ep env s req'"
    using gated_by_identity resolve_identity_token_mode by blast
next
  assume "(ep = GET_me \<or> ep = GET_profile) \<and> \<not> USE_JWT s
        \<and> map_of (cookies req) ''user_email'' = map_of (cookies req') ''user_email''
        \<and> map_of (headers req) ''x-user-email'' = map_of (headers req') ''x-user-email''"
  then show "handle ep env s req = handle ep env s req'"
    using gated_by_identity resolve_identity_cookie_mode by blast
qed


theorem mode_is_fixed_at_startup_witness:
  "USE_JWT token_server
   \<and> \<not> USE_JWT cookie_server
   \<and> USE_JWT (serve token_server
        [(POST_register, sample_env, post [(''email'', JStr ''b@x.com''), (''password'', JStr ''p2'')]),
         (GET_me, db_down, get_with_cookie ''user_email'' ''b@x.com'')]) = USE_JWT token_server
   \<and> map cookie_name
        (set_cookies
          \<lparr>status = 200,
           payload = Json (JObj [(''user'', JObj [(''id'', JNum 0), (''email'', JStr ''a@x.com''),
                                                 (''fullName'', JStr ''Alice'')])]),
           set_cookies = [SetCookie ''token'' (Some (JStr ''signed'')) token_cookie_opts]\<rparr>) =
       [if USE_JWT token_server then ''token'' else ''user_email'']
   \<and> handle GET_me sample_env token_server
        \<lparr>body = None, cookies = [(''token'', ''signed''), (''user_email'', ''b@x.com'')],
         headers = []\<rparr> =
       handle GET_me sample_env token_server
        \<lparr>body = None, cookies = [(''token'', ''signed'')], headers = []\<rparr>
   \<and> handle GET_profile sample_env cookie_server
        \<lparr>body = None, cookies = [(''user_email'', ''a@x.com''), (''token'', ''signed'')],
         headers = [(''authorization'', ''Bearer garbage'')]\<rparr> =
       handle GET_profile sample_env cookie_server
        \<lparr>body = None, cookies = [(''user_email'', ''a@x.com'')], headers = []\<rparr>"
proof -
  let ?r = "\<lparr>status = 200,
           payload = Json (JObj [(''user'', JObj [(''id'', JNum 0), (''email'', JStr ''a@x.com''),
                                                 (''fullName'', JStr ''Alice'')])]),
           set_cookies = [SetCookie ''token'' (Some (JStr ''signed'')) token_cookie_opts]\<rparr>"
  have d: "(POST_login = POST_register \<or> POST_login = POST_login)
      \<and> fst (handle POST_login sample_env token_server
               (post [(''email'', JStr ''a@x.com''), (''password'', JStr ''p1'')])) = Inr ?r
      \<and> status ?r = 200"
    by (simp add: world api_login_def login_body_def User_findOne_def issue_session_def
        try_catch_def res_json_def user_summary_def obj_def)
  have e: "(GET_me = GET_me \<or> GET_me = GET_profile) \<and> USE_JWT token_server
      \<and> map_of (cookies \<lparr>body = None, cookies = [(''token'', ''signed''), (''user_email'', ''b@x.com'')],
                 headers = []\<rparr>) ''token'' =
        map_of (cookies \<lparr>body = None, cookies = [(''token'', ''signed'')], headers = []\<rparr>) ''token''
      \<and> map_of (headers \<lparr>body = None, cookies = [(''token'', ''signed''), (''user_email'', ''b@x.com'')],
                 headers = []\<rparr>) ''authorization'' =
        map_of (headers \<lparr>body = None, cookies = [(''token'', ''signed'')], headers = []\<rparr>)
          ''authorization''"
    by (simp add: token_server_def startup_def)
  have f: "(GET_profile = GET_me \<or> GET_profile = GET_profile) \<and> \<not> USE_JWT cookie_server
      \<and> map_of (cookies \<lparr>body = None, cookies = [(''user_email'', ''a@x.com''), (''token'', ''signed'')],
                 headers = [(''authorization'', ''Bearer garbage'')]\<rparr>) ''user_email'' =
        map_of (cookies \<lparr>body = None, cookies = [(''user_email'', ''a@x.com'')], headers = []\<rparr>)
          ''user_email''
      \<and> map_of (headers \<lparr>body = None, cookies = [(''user_email'', ''a@x.com''), (''token'', ''signed'')],
                 headers = [(''authorization'', ''Bearer garbage'')]\<rparr>) ''x-user-email'' =
        map_of (headers \<lparr>body = None, cookies = [(''user_email'', ''a@x.com'')], headers = []\<rparr>)
          ''x-user-email''"
    by (simp add: cookie_server_def startup_def)
  have t: "USE_JWT token_server"
    using mode_is_fixed_at_startup
      [THEN conjunct1, of "\<lambda>k. if k = ''JWT_SECRET'' then Some ''s3cret'' else None" "[alice]"]
    by (simp add: token_server_def)
  have c: "\<not> USE_JWT cookie_server"
    using mode_is_fixed_at_startup [THEN conjunct1, of "\<lambda>k. None" "[alice]"]
    by (simp add: cookie_server_def)
  show ?thesis
    by (intro conjI t c
        mode_is_fixed_at_startup [THEN conjunct2, THEN conjunct1]
        mode_is_fixed_at_startup [THEN conjunct2, THEN conjunct2, THEN conjunct2, THEN conjunct1,
          THEN mp, OF d]
        mode_is_fixed_at_startup [THEN conjunct2, THEN conjunct2, THEN conjunct2, THEN conjunct2,
          THEN conjunct1, THEN mp, OF e]
        mode_is_fixed_at_startup [THEN conjunct2, THEN conjunct2, THEN conjunct2, THEN conjunct2,
          THEN conjunct2, THEN mp, OF f])
qed

section \<open>The client operations\<close>

lemma run_Cons: "run c (a # acts) = run (perform c a) acts"
  by (simp add: run_def)

lemma run_Nil: "run c [] = c"
  by (simp add: run_def)

lemma run_append: "run c (xs @ ys) = run (run c xs) ys"
  by (simp add: run_def)

lemma me_without_session:
  "fst (api_me env s (checkAuthStatus_request [])) =
     Inr \<lparr>status = 401, payload = Json (JObj [(''message'', JStr ''Not authenticated'')]),
          set_cookies = []\<rparr>"
  by (simp add: api_me_def me_body_def resolve_identity_def checkAuthStatus_request_def
      or_str_def bearer_def not_authenticated_def try_catch_def res_json_def message_def)

lemma checkAuthStatus_ends_loading: "\<exists>acts. checkAuthStatus f = acts @ [SetLoading False]"
  by (simp add: checkAuthStatus_def)

lemma loading_cleared: "loading (run c (checkAuthStatus f)) = False"
proof -
  obtain acts where "checkAuthStatus f = acts @ [SetLoading False]"
    using checkAuthStatus_ends_loading by blast
  then show ?thesis by (simp add: run_append run_Cons run_Nil)
qed

text \<open>
  C7.  With no prior session the browser sends no cookie.  In either mode the server
  answers, and \<open>checkAuthStatus\<close> run on that answer from the provider's initial state
  ends with the user absent, \<open>isAuthenticated\<close> false and \<open>loading\<close> false.  From any state
  and for any way the request settles \<open>loading\<close> ends false, and a transport failure
  ends with the user absent and \<open>isAuthenticated\<close> false.
\<close>

theorem checkAuthStatus_settles:
  "(\<exists>r. fst (api_me env s (checkAuthStatus_request [])) = Inr r
        \<and> run AuthProvider_initial (checkAuthStatus (delivered r)) =
            \<lparr>user = None, loading = False, isAuthenticated = False,
             navigated = [], toasts = [], console = []\<rparr>)
   \<and> loading (run c (checkAuthStatus f)) = False
   \<and> user (run c (checkAuthStatus (Rejected err))) = None
   \<and> isAuthenticated (run c (checkAuthStatus (Rejected err))) = False"
proof (intro conjI)
  show "\<exists>r. fst (api_me env s (checkAuthStatus_request [])) = Inr r
        \<and> run AuthProvider_initial (checkAuthStatus (delivered r)) =
            \<lparr>user = None, loading = False, isAuthenticated = False,
             navigated = [], toasts = [], console = []\<rparr>"
    by (simp add: me_without_session delivered_def checkAuthStatus_def checkAuthStatus_try_def
        ok_def run_def AuthProvider_initial_def)
  show "loading (run c (checkAuthStatus f)) = False" by (rule loading_cleared)
  show "user (run c (checkAuthStatus (Rejected err))) = None"
    by (simp add: checkAuthStatus_def checkAuthStatus_try_def run_def)
  show "isAuthenticated (run c (checkAuthStatus (Rejected err))) = False"
    by (simp add: checkAuthStatus_def checkAuthStatus_try_def run_def)
qed

text \<open>
  C8.  Whether the logout request is rejected or resolves, with any response, \<open>logout\<close>
  ends with the user absent and \<open>isAuthenticated\<close> false, has navigated to \<open>/login\<close> and
  has shown the "Logged out" toast; \<open>loading\<close> is left as it was.  A rejected request
  adds one line to the console and nothing else.
\<close>

theorem logout_always_clears:
  "user (run c (logout f)) = None
   \<and> isAuthenticated (run c (logout f)) = False
   \<and> loading (run c (logout f)) = loading c
   \<and> navigated (run c (logout f)) = navigated c @ [''/login'']
   \<and> toasts (run c (logout f)) =
       toasts c @ [(''Logged out'', ''You have been successfully logged out'')]
   \<and> logout (Rejected err) =
       ConsoleError ''Logout error:'' # logout (Resolved response)"
  by (cases f) (simp_all add: logout_def run_def)

text \<open>
  C9.  When the request of \<open>checkAuthStatus\<close> resolves with a status that is not ok and
  is neither 401 nor 403, the only effect is \<open>setLoading(false)\<close>: the user and
  \<open>isAuthenticated\<close> are as before.  And \<open>setUser(null)\<close> is called only when the request
  was rejected, or the status is 401 or 403, or the response is ok and yields no truthy
  \<open>data.user\<close> (this includes a body that does not parse).
\<close>

theorem checkAuthStatus_other_status:
  "(\<not> ok r \<and> res_status r \<noteq> 401 \<and> res_status r \<noteq> 403 \<longrightarrow>
      checkAuthStatus (Resolved r) = [SetLoading False]
      \<and> run c (checkAuthStatus (Resolved r)) = c\<lparr>loading := False\<rparr>)
   \<and> (SetUser None \<in> set (checkAuthStatus f) \<longrightarrow>
      (\<exists>err. f = Rejected err)
      \<or> (\<exists>r. f = Resolved r
            \<and> (ok r \<and> \<not> (\<exists>d u. res_body r = Inr d \<and> data_user d = Inr u \<and> truthy u)
                \<or> res_status r = 401 \<or> res_status r = 403)))"
proof (intro conjI impI)
  assume "\<not> ok r \<and> res_status r \<noteq> 401 \<and> res_status r \<noteq> 403"
  then show "checkAuthStatus (Resolved r) = [SetLoading False]"
    by (simp add: checkAuthStatus_def checkAuthStatus_try_def)
  then show "run c (checkAuthStatus (Resolved r)) = c\<lparr>loading := False\<rparr>"
    by (simp add: run_def)
next
  assume a: "SetUser None \<in> set (checkAuthStatus f)"
  show "(\<exists>err. f = Rejected err)
      \<or> (\<exists>r. f = Resolved r
            \<and> (ok r \<and> \<not> (\<exists>d u. res_body r = Inr d \<and> data_user d = Inr u \<and> truthy u)
                \<or> res_status r = 401 \<or> res_status r = 403))"
  proof (cases f)
    case (Rejected err)
    then show ?thesis by simp
  next
    case (Resolved r)
    then show ?thesis using a
      by (auto simp: checkAuthStatus_def checkAuthStatus_try_def
          split: if_splits sum.splits)
  qed
qed

text \<open>
  C10.  Outside every provider \<open>useAuth\<close> throws the error "useAuth must be used within
  an AuthProvider", and it throws exactly when the context value is absent; inside an
  \<open>AuthProvider\<close> it returns the value that provider gives.
\<close>

theorem useAuth_outside_and_inside:
  "useAuth [] = Inl (Error ''useAuth must be used within an AuthProvider'')
   \<and> (useAuth providers = Inl (Error ''useAuth must be used within an AuthProvider''))
       = (useContext providers = None)
   \<and> useAuth (provided_value apiBase c # outer) = Inr (provided_value apiBase c)"
  by (cases providers) (simp_all add: useAuth_def)


theorem checkAuthStatus_settles_witness:
  "(\<exists>r. fst (api_me sample_env token_server (checkAuthStatus_request [])) = Inr r
        \<and> run AuthProvider_initial (checkAuthStatus (delivered r)) =
            \<lparr>user = None, loading = False, isAuthenticated = False,
             navigated = [], toasts = [], console = []\<rparr>)
   \<and> loading (run AuthProvider_initial (checkAuthStatus (Rejected (TypeError ''Failed to fetch''))))
       = False
   \<and> user (run AuthProvider_initial (checkAuthStatus (Rejected (TypeError ''Failed to fetch''))))
       = None
   \<and> isAuthenticated
        (run AuthProvider_initial (checkAuthStatus (Rejected (TypeError ''Failed to fetch''))))
       = False"
  by (rule checkAuthStatus_settles)

theorem logout_always_clears_witness:
  "user (run signed_in (logout (Rejected (TypeError ''Failed to fetch'')))) = None
   \<and> isAuthenticated (run signed_in (logout (Rejected (TypeError ''Failed to fetch'')))) = False
   \<and> loading (run signed_in (logout (Rejected (TypeError ''Failed to fetch'')))) =
       loading signed_in
   \<and> navigated (run signed_in (logout (Rejected (TypeError ''Failed to fetch'')))) =
       navigated signed_in @ [''/login'']
   \<and> toasts (run signed_in (logout (Rejected (TypeError ''Failed to fetch'')))) =
       toasts signed_in @ [(''Logged out'', ''You have been successfully logged out'')]
   \<and> logout (Rejected (TypeError ''Failed to fetch'')) =
       ConsoleError ''Logout error:'' # logout (Resolved server_error_response)"
  by (rule logout_always_clears)

theorem checkAuthStatus_other_status_witness:
  "checkAuthStatus (Resolved server_error_response) = [SetLoading False]
   \<and> run signed_in (checkAuthStatus (Resolved server_error_response)) =
       signed_in\<lparr>loading := False\<rparr>
   \<and> ((\<exists>err. Rejected (TypeError ''Failed to fetch'') = Rejected err)
      \<or> (\<exists>r. Rejected (TypeError ''Failed to fetch'') = Resolved r
            \<and> (ok r \<and> \<not> (\<exists>d u. res_body r = Inr d \<and> data_user d = Inr u \<and> truthy u)
                \<or> res_status r = 401 \<or> res_status r = 403)))"
proof -
  have a: "\<not> ok server_error_response \<and> res_status server_error_response \<noteq> 401
      \<and> res_status server_error_response \<noteq> 403"
    by (simp add: server_error_response_def ok_def)
  have b: "SetUser None \<in> set (checkAuthStatus (Rejected (TypeError ''Failed to fetch'')))"
    by (simp add: checkAuthStatus_def checkAuthStatus_try_def)
  note t = checkAuthStatus_other_status [THEN conjunct1, THEN mp, OF a]
  show ?thesis
    by (intro conjI t [THEN conjunct1] t [THEN conjunct2]
        checkAuthStatus_other_status [THEN conjunct2, THEN mp, OF b])
qed

theorem useAuth_outside_and_inside_witness:
  "useAuth [] = Inl (Error ''useAuth must be used within an AuthProvider'')
   \<and> (useAuth [] = Inl (Error ''useAuth must be used within an AuthProvider''))
       = (useContext [] = None)
   \<and> useAuth (provided_value ''https://medai-glsh.onrender.com'' signed_in # []) =
       Inr (provided_value ''https://medai-glsh.onrender.com'' signed_in)"
  by (rule useAuth_outside_and_inside)

end
